theory Spec2Isabelle
  imports Complex_Main
begin

section \<open>Plate text\<close>

text \<open>
  Strings are ASCII text: \<open>str.upper()\<close> maps \<open>a\<close>..\<open>z\<close> to \<open>A\<close>..\<open>Z\<close> and leaves every
  other character as it is. The regular expression \<open>[^A-Z0-9]\<close> of \<open>re.sub\<close> deletes
  every character that is not an upper-case letter or a digit.
\<close>

definition upper_char :: "char \<Rightarrow> char" where
  "upper_char c =
     (let n = (of_char c :: nat) in if 97 \<le> n \<and> n \<le> 122 then char_of (n - 32) else c)"

definition is_plate_char :: "char \<Rightarrow> bool" where
  "is_plate_char c =
     (let n = (of_char c :: nat) in (65 \<le> n \<and> n \<le> 90) \<or> (48 \<le> n \<and> n \<le> 57))"

text \<open>\<^verbatim>\<open>re.sub(r'[^A-Z0-9]', '', raw_text.upper())\<close>, as written in \<open>ocr_plate_text\<close> and in
  the add-employee branch of \<open>dashboard\<close>.\<close>

definition normalize_plate :: "string \<Rightarrow> string" where
  "normalize_plate raw_text = filter is_plate_char (map upper_char raw_text)"

text \<open>Python truthiness of a value that is \<open>None\<close> or a string.\<close>

definition truthy :: "string option \<Rightarrow> bool" where
  "truthy v = (case v of None \<Rightarrow> False | Some s \<Rightarrow> s \<noteq> [])"

section \<open>Images, boxes and slicing\<close>

text \<open>
  An image is its list of pixel rows; a pixel stands for its three colour channels.
  A box is the tuple \<open>x1, y1, x2, y2\<close> after \<open>map(int, box)\<close>.
\<close>

type_synonym pixel = nat
type_synonym image = "pixel list list"
type_synonym box = "int \<times> int \<times> int \<times> int"

definition height :: "image \<Rightarrow> nat" where
  "height im = length im"

definition width :: "image \<Rightarrow> nat" where
  "width im = (case im of [] \<Rightarrow> 0 | r # _ \<Rightarrow> length r)"

text \<open>\<open>ndarray.size\<close>: the number of entries, three per pixel.\<close>

definition img_size :: "image \<Rightarrow> nat" where
  "img_size im = height im * width im * 3"

text \<open>A slice bound of Python: a negative bound counts from the end, and both are
  clamped to the length.\<close>

definition slice_bound :: "int \<Rightarrow> nat \<Rightarrow> nat" where
  "slice_bound i n = (if i < 0 then nat (int n + i) else min (nat i) n)"

definition py_slice :: "int \<Rightarrow> int \<Rightarrow> 'a list \<Rightarrow> 'a list" where
  "py_slice lo hi xs =
     (let a = slice_bound lo (length xs); b = slice_bound hi (length xs)
      in take (b - a) (drop a xs))"

text \<open>\<^verbatim>\<open>img[y1:y2, x1:x2]\<close>\<close>

fun crop_box :: "image \<Rightarrow> box \<Rightarrow> image" where
  "crop_box img (x1, y1, x2, y2) = map (py_slice x1 x2) (py_slice y1 y2 img)"

text \<open>
  \<^verbatim>\<open>int(w * Config.CROP_WIDTH_RATIO)\<close> with the ratio 0.85. The product is computed in
  double precision and truncated; for every width an image can have it is the integer
  quotient written here.
\<close>

definition crop_width :: "nat \<Rightarrow> nat" where
  "crop_width w = (w * 85) div 100"

text \<open>\<^verbatim>\<open>h, w = plate_crop.shape[:2]; plate_crop = plate_crop[:, :int(w * 0.85)]\<close>\<close>

definition refine_crop :: "image \<Rightarrow> image" where
  "refine_crop plate_crop = (let w = width plate_crop in map (take (crop_width w)) plate_crop)"

section \<open>The collaborators\<close>

datatype exn = YoloError | IndexError | IntegrityError | CvError

text \<open>The JSON answer of the OCR service: each parsed result carries its \<open>ParsedText\<close>
  when the key is there.\<close>

record ocr_json =
  IsErroredOnProcessing :: bool
  ParsedResults :: "string option list"

datatype ocr_outcome = OcrRaises | OcrJson ocr_json

text \<open>One result of the detector: its boxes (\<open>r.boxes.xyxy\<close>, as integers) and the
  annotated image \<open>r.plot()\<close>.\<close>

record yolo_result =
  xyxy :: "box list"
  plot :: image

type_synonym detector = "image \<Rightarrow> exn + yolo_result list"

record env =
  clock :: string
  model :: "detector option"
  model_path_exists :: bool
  YOLO_load :: "exn + detector"
  ocr_service :: "image \<Rightarrow> ocr_outcome"

text \<open>An uploaded file: its name and what \<open>cv2.imread\<close> makes of the saved bytes
  (\<open>None\<close> for an empty or unreadable image).\<close>

record file_storage =
  filename :: string
  decoded :: "image option"

text \<open>What the pipeline does to the outside: files written and crops posted. A file
  read back is the image that was written.\<close>

datatype effect = SaveUpload string | ImWrite string image | OcrPost string image

text \<open>\<open>cv2.imwrite\<close> raises \<open>cv2.error\<close> on an empty image (an array with no entry).\<close>

definition imwrite_raises :: "image \<Rightarrow> bool" where
  "imwrite_raises im = (img_size im = 0)"

definition get_yolo_model :: "env \<Rightarrow> detector option" where
  "get_yolo_model env =
     (case model env of
        Some m \<Rightarrow> Some m
      | None \<Rightarrow>
          if model_path_exists env
          then (case YOLO_load env of Inl e \<Rightarrow> None | Inr m \<Rightarrow> Some m)
          else None)"

definition ocr_plate_text :: "env \<Rightarrow> image \<Rightarrow> string option" where
  "ocr_plate_text env crop =
     (case ocr_service env crop of
        OcrRaises \<Rightarrow> None
      | OcrJson result \<Rightarrow>
          if \<not> IsErroredOnProcessing result \<and> ParsedResults result \<noteq> [] then
            (case ParsedResults result of
               [] \<Rightarrow> None
             | r # _ \<Rightarrow>
                 (let raw_text = (case r of None \<Rightarrow> [] | Some t \<Rightarrow> t)
                  in Some (normalize_plate raw_text)))
          else None)"

section \<open>The extraction pipeline\<close>

definition upload_path :: "string \<Rightarrow> string" where
  "upload_path name = ''static/uploads/'' @ name"

record scan =
  plate_text :: "string option"
  crop_filename :: "string option"
  trace :: "effect list"

text \<open>\<^verbatim>\<open>detected and len(detected) > 2\<close>\<close>

definition accepted :: "string option \<Rightarrow> bool" where
  "accepted detected = (case detected of None \<Rightarrow> False | Some t \<Rightarrow> t \<noteq> [] \<and> length t > 2)"

text \<open>What the inner loop reads for one box: nothing for a crop of size 0 and nothing
  for a refined crop that cannot be written, else the answer of \<open>ocr_plate_text\<close> on the
  refined crop.\<close>

definition box_text :: "env \<Rightarrow> image \<Rightarrow> box \<Rightarrow> string option" where
  "box_text env img b =
     (if img_size (crop_box img b) = 0 \<or> imwrite_raises (refine_crop (crop_box img b)) then None
      else ocr_plate_text env (refine_crop (crop_box img b)))"

text \<open>The inner loop \<^verbatim>\<open>for box in boxes\<close>: \<open>continue\<close> on a crop of size 0, \<open>break\<close> on
  the first text longer than two characters. There is no \<open>try\<close> in \<open>process_upload\<close>:
  when the write of the refined crop raises, the loop ends with the exception and the
  effects so far.\<close>

fun boxes_loop ::
  "env \<Rightarrow> image \<Rightarrow> string \<Rightarrow> box list \<Rightarrow> scan \<Rightarrow> exn \<times> effect list + scan" where
  "boxes_loop env img timestamp [] st = Inr st"
| "boxes_loop env img timestamp (b # bs) st =
     (let plate_crop = crop_box img b in
      if img_size plate_crop = 0 then boxes_loop env img timestamp bs st
      else
        (let plate_crop = refine_crop plate_crop;
             crop_name = ''crop_'' @ timestamp @ ''.jpg'';
             crop_path = upload_path crop_name
         in if imwrite_raises plate_crop then Inl (CvError, trace st)
            else
              (let st1 = st\<lparr>crop_filename := Some crop_name,
                           trace := trace st @
                             [ImWrite crop_path plate_crop, OcrPost crop_path plate_crop]\<rparr>;
                   detected = ocr_plate_text env plate_crop
               in if accepted detected
                  then Inr (st1\<lparr>plate_text := detected\<rparr>)
                  else boxes_loop env img timestamp bs st1)))"

text \<open>The outer loop \<^verbatim>\<open>for r in results\<close> with its \<^verbatim>\<open>if plate_text: break\<close>.\<close>

fun results_loop ::
  "env \<Rightarrow> image \<Rightarrow> string \<Rightarrow> yolo_result list \<Rightarrow> scan \<Rightarrow> exn \<times> effect list + scan" where
  "results_loop env img timestamp [] st = Inr st"
| "results_loop env img timestamp (r # rs) st =
     (case boxes_loop env img timestamp (xyxy r) st of
        Inl raised \<Rightarrow> Inl raised
      | Inr st1 \<Rightarrow>
          if truthy (plate_text st1) then Inr st1 else results_loop env img timestamp rs st1)"

definition process_upload ::
  "env \<Rightarrow> file_storage \<Rightarrow> (exn + string option \<times> string \<times> string option) \<times> effect list" where
  "process_upload env file_storage =
     (let timestamp = clock env;
          filename = ''full_'' @ timestamp @ ''.jpg'';
          filepath = upload_path filename;
          saved = [SaveUpload filepath]
      in case get_yolo_model env of
           None \<Rightarrow> (Inr (None, filename, None), saved)
         | Some active_model \<Rightarrow>
             (case decoded file_storage of
                None \<Rightarrow> (Inr (None, filename, None), saved)
              | Some img \<Rightarrow>
                  (case active_model img of
                     Inl e \<Rightarrow> (Inl e, saved)
                   | Inr results \<Rightarrow>
                       (case results of
                          [] \<Rightarrow> (Inl IndexError, saved)
                        | r0 # _ \<Rightarrow>
                            if imwrite_raises (plot r0) then (Inl CvError, saved)
                            else
                              (case results_loop env img timestamp results
                                      \<lparr>plate_text = None, crop_filename = None,
                                       trace = saved @ [ImWrite filepath (plot r0)]\<rparr> of
                                 Inl (e, tr) \<Rightarrow> (Inl e, tr)
                               | Inr st \<Rightarrow>
                                   (Inr (plate_text st, filename, crop_filename st), trace st))))))"

section \<open>The gate\<close>

text \<open>
  \<open>gate_state\<close> holds the flag; every \<open>_auto_close_gate\<close> thread that is still in its
  \<open>time.sleep\<close> is listed with the time at which its sleep ends. Time is counted in
  whole units. A thread is started after the flag is set and sleeps for at least the
  delay: it writes the flag just after the end of its sleep, so after a trigger that is
  issued at that very time, and a read at that very time still sees it asleep.
\<close>

record gate_state =
  is_open :: bool
  sleeping :: "nat list"

definition gate_init :: gate_state where
  "gate_init = \<lparr>is_open = False, sleeping = []\<rparr>"

definition AUTO_CLOSE_DELAY :: nat where
  "AUTO_CLOSE_DELAY = 10"

text \<open>\<open>activate_gate\<close> at time \<open>now\<close>: the flag is set and a thread is started that sleeps
  for the delay.\<close>

definition activate_gate :: "nat \<Rightarrow> nat \<Rightarrow> gate_state \<Rightarrow> gate_state" where
  "activate_gate delay now g = g\<lparr>is_open := True, sleeping := sleeping g @ [now + delay]\<rparr>"




section \<open>The registry and the access log\<close>

record employee =
  emp_id :: nat
  emp_name :: string
  emp_position :: string

record plate =
  plate_number :: string
  plate_employee_id :: nat

record access_log =
  log_employee_id :: "nat option"
  log_plate_number :: string
  log_action :: string
  log_details :: string

text \<open>The three tables, and the last id that \<open>AUTOINCREMENT\<close> gave to an employee.\<close>

record db =
  employees :: "employee list"
  plates :: "plate list"
  access_logs :: "access_log list"
  last_id :: nat

definition init_db :: db where
  "init_db = \<lparr>employees = [], plates = [], access_logs = [], last_id = 0\<rparr>"

text \<open>The \<open>SELECT\<close> of \<open>detection\<close>: the plate row joined with its employee; the result is
  the employee's name and id.\<close>

definition find_employee :: "db \<Rightarrow> string \<Rightarrow> (string \<times> nat) option" where
  "find_employee d t =
     (case find (\<lambda>p. plate_number p = t) (plates d) of
        None \<Rightarrow> None
      | Some p \<Rightarrow>
          (case find (\<lambda>e. emp_id e = plate_employee_id p) (employees d) of
             None \<Rightarrow> None
           | Some e \<Rightarrow> Some (emp_name e, plate_employee_id p)))"

text \<open>The add-employee branch of \<open>dashboard\<close>. \<open>plate_number\<close> is the primary key of
  \<open>plates\<close>: a second row with the same key raises, and nothing is committed.\<close>

definition add_employee :: "db \<Rightarrow> string \<Rightarrow> string \<Rightarrow> string \<Rightarrow> exn + db" where
  "add_employee d name pos plate_field =
     (let plate = normalize_plate plate_field;
          eid = last_id d + 1;
          d1 = d\<lparr>employees := employees d @ [\<lparr>emp_id = eid, emp_name = name, emp_position = pos\<rparr>],
                 last_id := eid\<rparr>
      in if plate \<noteq> [] then
           (if list_ex (\<lambda>p. plate_number p = plate) (plates d1) then Inl IntegrityError
            else Inr (d1\<lparr>plates := plates d1 @ [\<lparr>plate_number = plate, plate_employee_id = eid\<rparr>]\<rparr>))
         else Inr d1)"

text \<open>The delete-employee branch of \<open>dashboard\<close>.\<close>

definition delete_employee :: "db \<Rightarrow> nat \<Rightarrow> db" where
  "delete_employee d delete_id =
     d\<lparr>employees := filter (\<lambda>e. emp_id e \<noteq> delete_id) (employees d),
       plates := filter (\<lambda>p. plate_employee_id p \<noteq> delete_id) (plates d)\<rparr>"

section \<open>The detection route\<close>

record page_context =
  ctx_text :: "string option"
  full_image :: "string option"
  plate_image :: "string option"
  status :: "string option"
  message :: "string option"
  css_class :: string
  gate_triggered :: bool

record request =
  session_user :: bool
  method_post :: bool
  upload :: "file_storage option"

datatype response = Redirect string | Render string page_context

definition context_init :: page_context where
  "context_init =
     \<lparr>ctx_text = None, full_image = None, plate_image = None, status = None,
      message = None, css_class = [], gate_triggered = False\<rparr>"

text \<open>\<open>detection\<close> at time \<open>now\<close>, on the registry \<open>d\<close> and the gate \<open>g\<close>: the answer or the
  exception, the registry and the gate afterwards, and the effects of the pipeline.\<close>

definition detection ::
  "env \<Rightarrow> nat \<Rightarrow> request \<Rightarrow> db \<Rightarrow> gate_state \<Rightarrow> (exn + response) \<times> db \<times> gate_state \<times> effect list" where
  "detection env now req d g =
     (if \<not> session_user req then (Inr (Redirect ''login''), d, g, [])
      else
        (case (if method_post req then upload req else None) of
           None \<Rightarrow> (Inr (Render ''detection.html'' context_init), d, g, [])
         | Some file \<Rightarrow>
             if filename file = [] then (Inr (Render ''detection.html'' context_init), d, g, [])
             else
               (case process_upload env file of
                  (Inl e, tr) \<Rightarrow> (Inl e, d, g, tr)
                | (Inr (text, full_img, crop_img), tr) \<Rightarrow>
                    (let ctx = context_init
                           \<lparr>full_image := Some full_img, plate_image := crop_img,
                            status := Some ''FAILED'', message := Some ''No Plate Detected'',
                            css_class := ''status-denied''\<rparr>
                     in case text of
                          None \<Rightarrow> (Inr (Render ''detection.html'' ctx), d, g, tr)
                        | Some t \<Rightarrow>
                            if t = [] then (Inr (Render ''detection.html'' ctx), d, g, tr)
                            else
                              (case find_employee d t of
                                 Some (name, eid) \<Rightarrow>
                                   (Inr (Render ''detection.html''
                                      (ctx\<lparr>ctx_text := Some t, status := Some ''GRANTED'',
                                         message := Some (''Authorized: '' @ name),
                                         css_class := ''status-granted'',
                                         gate_triggered := True\<rparr>)),
                                    d\<lparr>access_logs := access_logs d @
                                        [\<lparr>log_employee_id = Some eid, log_plate_number = t,
                                          log_action = ''ENTRY'', log_details = ''Automated Entry''\<rparr>]\<rparr>,
                                    activate_gate AUTO_CLOSE_DELAY now g, tr)
                               | None \<Rightarrow>
                                   (Inr (Render ''detection.html''
                                      (ctx\<lparr>ctx_text := Some t, status := Some ''DENIED'',
                                         message := Some ''Unregistered Vehicle'',
                                         css_class := ''status-denied''\<rparr>)),
                                    d\<lparr>access_logs := access_logs d @
                                        [\<lparr>log_employee_id = None, log_plate_number = t,
                                          log_action = ''DENIED'', log_details = ''Unknown Vehicle''\<rparr>]\<rparr>,
                                    g, tr))))))"

text \<open>What holds of every registry the operations below can reach: a stored plate is
  not empty, has only upper-case letters and digits and belongs to an id that was given
  out; no employee id is beyond the last one given out; the plate text of every log row
  has only upper-case letters and digits; the primary keys are distinct.\<close>

definition registry_ok :: "db \<Rightarrow> bool" where
  "registry_ok d =
     (list_all (\<lambda>p. plate_number p \<noteq> [] \<and> list_all is_plate_char (plate_number p) \<and>
                  plate_employee_id p \<le> last_id d) (plates d) \<and>
      list_all (\<lambda>e. emp_id e \<le> last_id d) (employees d) \<and>
      list_all (\<lambda>l. list_all is_plate_char (log_plate_number l)) (access_logs d) \<and>
      distinct (map plate_number (plates d)) \<and> distinct (map emp_id (employees d)))"

text \<open>The operations that write the registry, run in sequence from the empty
  database; an operation that raises commits nothing.\<close>

datatype operation =
    AddEmployee string string string
  | DeleteEmployee nat
  | Detect env nat request

fun apply_operation :: "operation \<Rightarrow> db \<Rightarrow> db" where
  "apply_operation (AddEmployee name pos plate_field) d =
     (case add_employee d name pos plate_field of Inl e \<Rightarrow> d | Inr d' \<Rightarrow> d')"
| "apply_operation (DeleteEmployee delete_id) d = delete_employee d delete_id"
| "apply_operation (Detect env now req) d = fst (snd (detection env now req d gate_init))"

definition run_operations :: "operation list \<Rightarrow> db" where
  "run_operations ops = fold apply_operation ops init_db"

section \<open>Example collaborators\<close>

text \<open>An OCR service that answers every crop with one parsed result of the given text,
  a detector that finds the given boxes, a detector whose call raises, and an
  environment built from a detector and an OCR answer.\<close>

definition ocr_answering :: "string \<Rightarrow> image \<Rightarrow> ocr_outcome" where
  "ocr_answering txt crop = OcrJson \<lparr>IsErroredOnProcessing = False, ParsedResults = [Some txt]\<rparr>"

definition detector_finding :: "box list \<Rightarrow> detector" where
  "detector_finding bs img = Inr [\<lparr>xyxy = bs, plot = img\<rparr>]"

definition detector_raising :: detector where
  "detector_raising img = Inl YoloError"

definition example_env :: "detector option \<Rightarrow> string \<Rightarrow> env" where
  "example_env m txt =
     \<lparr>clock = ''20240101120000'', model = m, model_path_exists = False,
      YOLO_load = Inl YoloError, ocr_service = ocr_answering txt\<rparr>"

definition example_image :: image where
  "example_image = replicate 4 [0 ..< 20]"

text \<open>A service that knows the crops of a table and raises on every other crop; four
  boxes, the first of area 0; the environment with this detector and service; and the
  same environment with a box of width 1 before the others.\<close>

definition ocr_table :: "(image \<times> string) list \<Rightarrow> image \<Rightarrow> ocr_outcome" where
  "ocr_table tab crop =
     (case map_of tab crop of
        None \<Rightarrow> OcrRaises
      | Some txt \<Rightarrow> OcrJson \<lparr>IsErroredOnProcessing = False, ParsedResults = [Some txt]\<rparr>)"

definition example_boxes :: "box list" where
  "example_boxes = [(5, 1, 5, 3), (0, 0, 3, 2), (0, 0, 10, 2), (10, 0, 20, 2)]"

definition example_ocr :: "image \<Rightarrow> ocr_outcome" where
  "example_ocr =
     ocr_table [([[0, 1], [0, 1]], ''a-1''), (replicate 2 [0 ..< 8], ''xyz 123''),
                (replicate 2 [10 ..< 18], ''abc 999'')]"

definition example_detect_env :: env where
  "example_detect_env =
     (example_env (Some (detector_finding example_boxes)) [])\<lparr>ocr_service := example_ocr\<rparr>"




definition example_upload :: file_storage where
  "example_upload = \<lparr>filename = ''car.jpg'', decoded = Some example_image\<rparr>"

definition example_request :: request where
  "example_request = \<lparr>session_user = True, method_post = True, upload = Some example_upload\<rparr>"

text \<open>A registry with one employee and their plate, an upload that cannot be read, and a
  registration followed by a detection.\<close>

definition example_db :: db where
  "example_db =
     \<lparr>employees = [\<lparr>emp_id = 1, emp_name = ''Sara'', emp_position = ''Engineer''\<rparr>],
      plates = [\<lparr>plate_number = ''XYZ123'', plate_employee_id = 1\<rparr>],
      access_logs = [], last_id = 1\<rparr>"

definition unreadable_upload :: file_storage where
  "unreadable_upload = \<lparr>filename = ''empty.jpg'', decoded = None\<rparr>"

definition example_operations :: "operation list" where
  "example_operations =
     [AddEmployee ''Sara'' ''Engineer'' ''xyz-123'', Detect example_detect_env 100 example_request]"

section \<open>Normalisation\<close>

lemma upper_char_plate: "is_plate_char c \<Longrightarrow> upper_char c = c"
  by (auto simp: upper_char_def is_plate_char_def Let_def)

lemma normalize_plate_fixed: "list_all is_plate_char s \<Longrightarrow> normalize_plate s = s"
  by (induction s) (auto simp: normalize_plate_def upper_char_plate)

lemma normalize_plate_chars: "list_all is_plate_char (normalize_plate s)"
  by (simp add: normalize_plate_def list_all_iff)

text \<open>
  C5: normalisation (upper-case, then delete every character outside \<open>[A-Z0-9]\<close>) returns
  an already normalised string unchanged, so normalising twice is normalising once; and
  the input \<open>ab-12 34!\<close> becomes \<open>AB1234\<close>.
\<close>

theorem normalize_plate_idempotent:
  "(list_all is_plate_char s \<longrightarrow> normalize_plate s = s) \<and>
   normalize_plate (normalize_plate s) = normalize_plate s \<and>
   normalize_plate ''ab-12 34!'' = ''AB1234''"
proof -
  have "normalize_plate ''ab-12 34!'' = ''AB1234''"
    by code_simp
  moreover have "normalize_plate (normalize_plate s) = normalize_plate s"
    by (rule normalize_plate_fixed) (rule normalize_plate_chars)
  ultimately show ?thesis
    by (simp add: normalize_plate_fixed)
qed

theorem normalize_plate_idempotent_witness:
  "list_all is_plate_char ''XYZ123'' \<and> normalize_plate ''XYZ123'' = ''XYZ123'' \<and>
   normalize_plate (normalize_plate ''xyz 123'') = normalize_plate ''xyz 123''"
proof -
  have h: "list_all is_plate_char ''XYZ123''"
    by code_simp
  from normalize_plate_idempotent [of "''XYZ123''"] h
  have "normalize_plate ''XYZ123'' = ''XYZ123''"
    by blast
  with h normalize_plate_idempotent [of "''xyz 123''"] show ?thesis
    by blast
qed

section \<open>The recogniser adapter\<close>

text \<open>
  C6, as the code has it: on a successful answer of the OCR service (no processing error
  and at least one parsed result) the adapter takes the parsed text of the first result
  only (the empty string when the key is missing) and returns it normalised: upper-cased
  and stripped of every character outside \<open>[A-Z0-9]\<close>.
\<close>

theorem ocr_plate_text_first_normalized:
  assumes "ocr_service env crop = OcrJson result"
    and "\<not> IsErroredOnProcessing result"
    and "ParsedResults result = r # rs"
  shows "ocr_plate_text env crop = Some (normalize_plate (case r of None \<Rightarrow> [] | Some t \<Rightarrow> t))"
  using assms by (simp add: ocr_plate_text_def)

theorem ocr_plate_text_first_normalized_witness:
  "ocr_plate_text
     (example_env None ''xyz 123''\<lparr>ocr_service := \<lambda>crop. OcrJson
        \<lparr>IsErroredOnProcessing = False, ParsedResults = [Some ''xyz 123'', Some ''other'']\<rparr>\<rparr>)
     example_image = Some ''XYZ123''"
proof -
  have "normalize_plate ''xyz 123'' = ''XYZ123''"
    by code_simp
  with ocr_plate_text_first_normalized
    [of "example_env None ''xyz 123''\<lparr>ocr_service := \<lambda>crop. OcrJson
        \<lparr>IsErroredOnProcessing = False, ParsedResults = [Some ''xyz 123'', Some ''other'']\<rparr>\<rparr>"
      example_image
      "\<lparr>IsErroredOnProcessing = False, ParsedResults = [Some ''xyz 123'', Some ''other'']\<rparr>"
      "Some ''xyz 123''" "[Some ''other'']"]
  show ?thesis
    by (simp add: example_env_def)
qed

text \<open>The claim as stated fails: the adapter does not return the parsed text raw. The
  service answers \<open>ab-12 34!\<close> and the adapter returns \<open>AB1234\<close>.\<close>

theorem ocr_plate_text_not_raw:
  "ocr_plate_text (example_env None ''ab-12 34!'') example_image = Some ''AB1234'' \<and>
   ocr_plate_text (example_env None ''ab-12 34!'') example_image \<noteq> Some ''ab-12 34!''"
proof -
  have n: "normalize_plate ''ab-12 34!'' = ''AB1234''"
    by code_simp
  have "ocr_plate_text (example_env None ''ab-12 34!'') example_image = Some ''AB1234''"
    by (simp add: ocr_plate_text_def example_env_def ocr_answering_def n)
  then show ?thesis
    by simp
qed

section \<open>The extraction pipeline: lemmas\<close>







lemma boxes_loop_raise:
  "img_size (crop_box img b) \<noteq> 0 \<Longrightarrow> imwrite_raises (refine_crop (crop_box img b)) \<Longrightarrow>
   boxes_loop env img ts (b # bs) st = Inl (CvError, trace st)"
  by (simp add: Let_def)


lemma box_text_none:
  "img_size (crop_box img b) = 0 \<or> imwrite_raises (refine_crop (crop_box img b)) \<Longrightarrow>
   \<not> accepted (box_text env img b)"
  by (simp add: box_text_def accepted_def)


lemma box_text_some:
  "img_size (crop_box img b) \<noteq> 0 \<Longrightarrow> \<not> imwrite_raises (refine_crop (crop_box img b)) \<Longrightarrow>
   box_text env img b = ocr_plate_text env (refine_crop (crop_box img b))"
  by (simp add: box_text_def)

lemma boxes_loop_plate_text:
  "boxes_loop env img ts bs st = Inr st' \<Longrightarrow>
   plate_text st' =
     (case find (\<lambda>b. accepted (box_text env img b)) bs of
        None \<Rightarrow> plate_text st
      | Some b \<Rightarrow> box_text env img b)"
proof (induction bs arbitrary: st)
  case Nil
  then show ?case by simp
next
  case (Cons b bs)
  show ?case
  proof (cases "img_size (crop_box img b) = 0")
    case True
    with box_text_none [of img b env] Cons show ?thesis
      by simp
  next
    case False
    show ?thesis
    proof (cases "imwrite_raises (refine_crop (crop_box img b))")
      case True
      with False Cons.prems show ?thesis
        by (simp add: Let_def)
    next
      case w: False
      note bt = box_text_some [OF False w, of env]
      show ?thesis
      proof (cases "accepted (box_text env img b)")
        case True
        with False w bt Cons.prems show ?thesis
          by (auto simp: Let_def)
      next
        case acc: False
        with False w bt Cons.prems have "boxes_loop env img ts bs
            (st\<lparr>crop_filename := Some (''crop_'' @ ts @ ''.jpg''),
                trace := trace st @
                  [ImWrite (upload_path (''crop_'' @ ts @ ''.jpg'')) (refine_crop (crop_box img b)),
                   OcrPost (upload_path (''crop_'' @ ts @ ''.jpg'')) (refine_crop (crop_box img b))]\<rparr>) =
            Inr st'"
          by (simp add: Let_def)
        from Cons.IH [OF this] acc show ?thesis
          by (simp split: option.splits)
      qed
    qed
  qed
qed



lemma find_append:
  "find P (xs @ ys) = (case find P xs of None \<Rightarrow> find P ys | Some x \<Rightarrow> Some x)"
  by (induction xs) simp_all

lemma accepted_truthy: "accepted d \<Longrightarrow> truthy d"
  by (auto simp: accepted_def truthy_def split: option.splits)

lemma find_SomeD: "find P xs = Some x \<Longrightarrow> P x"
  by (auto simp: find_Some_iff)

lemma results_loop_plate_text:
  "\<not> truthy (plate_text st) \<Longrightarrow> results_loop env img ts rs st = Inr st' \<Longrightarrow>
   plate_text st' =
     (case find (\<lambda>b. accepted (box_text env img b)) (concat (map xyxy rs)) of
        None \<Rightarrow> plate_text st
      | Some b \<Rightarrow> box_text env img b)"
proof (induction rs arbitrary: st)
  case Nil
  then show ?case by simp
next
  case (Cons r rs)
  from Cons.prems(2) obtain st1 where b: "boxes_loop env img ts (xyxy r) st = Inr st1"
    by (cases "boxes_loop env img ts (xyxy r) st") simp_all
  note pt = boxes_loop_plate_text [OF b]
  show ?case
  proof (cases "find (\<lambda>b. accepted (box_text env img b)) (xyxy r)")
    case None
    with pt have same: "plate_text st1 = plate_text st"
      by simp
    with Cons.prems b have "results_loop env img ts rs st1 = Inr st'"
      by simp
    from Cons.IH [OF _ this] same Cons.prems(1) None show ?thesis
      by (simp add: find_append split: option.splits)
  next
    case (Some b')
    then have "accepted (box_text env img b')"
      by (rule find_SomeD)
    with pt Some have "truthy (plate_text st1)"
      by (simp add: accepted_truthy)
    with Cons.prems(2) b have "st' = st1"
      by simp
    with pt Some show ?thesis
      by (simp add: find_append)
  qed
qed



lemma ocr_plate_text_normalized:
  "ocr_plate_text env crop = Some t \<Longrightarrow> list_all is_plate_char t"
  by (auto simp: ocr_plate_text_def Let_def normalize_plate_chars
      split: ocr_outcome.splits if_splits list.splits)

lemma box_text_normalized: "box_text env img b = Some t \<Longrightarrow> list_all is_plate_char t"
  by (auto simp: box_text_def dest: ocr_plate_text_normalized split: if_splits)

lemma process_upload_run:
  assumes "get_yolo_model env = Some m" and "decoded file = Some img"
    and "m img = Inr (r # rs)"
  shows "process_upload env file =
     (if imwrite_raises (plot r)
      then (Inl CvError, [SaveUpload (upload_path (''full_'' @ clock env @ ''.jpg''))])
      else
        (case results_loop env img (clock env) (r # rs)
                \<lparr>plate_text = None, crop_filename = None,
                 trace = [SaveUpload (upload_path (''full_'' @ clock env @ ''.jpg'')),
                          ImWrite (upload_path (''full_'' @ clock env @ ''.jpg'')) (plot r)]\<rparr> of
           Inl (e, tr) \<Rightarrow> (Inl e, tr)
         | Inr st \<Rightarrow> (Inr (plate_text st, ''full_'' @ clock env @ ''.jpg'', crop_filename st), trace st)))"
  using assms
  by (simp add: process_upload_def Let_def del: results_loop.simps split: sum.splits prod.splits)

lemma process_upload_text:
  assumes "get_yolo_model env = Some m" and "decoded file = Some img"
    and "m img = Inr (r # rs)"
    and "process_upload env file = (Inr (cand, nm, c), tr)"
  shows "cand =
     (case find (\<lambda>b. accepted (box_text env img b)) (concat (map xyxy (r # rs))) of
        None \<Rightarrow> None
      | Some b \<Rightarrow> box_text env img b) \<and> nm = ''full_'' @ clock env @ ''.jpg''"
proof -
  let ?st0 = "\<lparr>plate_text = None, crop_filename = None,
                 trace = [SaveUpload (upload_path (''full_'' @ clock env @ ''.jpg'')),
                          ImWrite (upload_path (''full_'' @ clock env @ ''.jpg'')) (plot r)]\<rparr>"
  from process_upload_run [OF assms(1-3)] assms(4)
  obtain st where l: "results_loop env img (clock env) (r # rs) ?st0 = Inr st"
    and c: "cand = plate_text st" and n: "nm = ''full_'' @ clock env @ ''.jpg''"
    by (auto simp del: results_loop.simps split: if_splits sum.splits)
  have "\<not> truthy (plate_text ?st0)"
    by (simp add: truthy_def)
  from results_loop_plate_text [OF this l] c n show ?thesis
    by (simp del: results_loop.simps split: option.splits)
qed


lemma process_upload_cases:
  "(\<exists>nm tr. process_upload env file = (Inr (None, nm, None), tr)) \<or>
   (\<exists>e tr. process_upload env file = (Inl e, tr)) \<or>
   (\<exists>m img r rs. get_yolo_model env = Some m \<and> decoded file = Some img \<and> m img = Inr (r # rs))"
  by (auto simp: process_upload_def Let_def split: option.splits sum.splits list.splits)

lemma process_upload_candidate:
  assumes "fst (process_upload env file) = Inr (Some t, nm, crop)"
  shows "2 < length t \<and> list_all is_plate_char t"
proof -
  from process_upload_cases [of env "file"] assms
  obtain m img r rs where h: "get_yolo_model env = Some m" "decoded file = Some img"
      "m img = Inr (r # rs)"
    by auto
  from assms have "process_upload env file = (Inr (Some t, nm, crop), snd (process_upload env file))"
    by (simp add: prod_eq_iff)
  from process_upload_text [OF h this]
  have "(case find (\<lambda>b. accepted (box_text env img b)) (concat (map xyxy (r # rs))) of
             None \<Rightarrow> None
           | Some b \<Rightarrow> box_text env img b) = Some t"
    by simp
  then obtain b where "accepted (box_text env img b)" and "box_text env img b = Some t"
    by (auto split: option.splits dest: find_SomeD)
  then show ?thesis
    by (auto simp: accepted_def dest: box_text_normalized)
qed

lemma process_upload_unavailable:
  "get_yolo_model env = None \<or> decoded file = None \<Longrightarrow>
   process_upload env file =
     (Inr (None, ''full_'' @ clock env @ ''.jpg'', None),
      [SaveUpload (upload_path (''full_'' @ clock env @ ''.jpg''))])"
  by (auto simp: process_upload_def Let_def split: option.splits)









section \<open>Failures of the detector\<close>




section \<open>The gate: every timer closes it\<close>












section \<open>The decision\<close>

lemma detection_upload:
  assumes "session_user req" and "method_post req" and "upload req = Some file"
    and "filename file \<noteq> []"
    and "process_upload env file = (Inr (text, full_img, crop_img), tr)"
  shows "detection env now req d g =
    (case text of
       None \<Rightarrow>
         (Inr (Render ''detection.html''
            \<lparr>ctx_text = None, full_image = Some full_img, plate_image = crop_img,
             status = Some ''FAILED'', message = Some ''No Plate Detected'',
             css_class = ''status-denied'', gate_triggered = False\<rparr>), d, g, tr)
     | Some t \<Rightarrow>
         (case find_employee d t of
            Some (name, eid) \<Rightarrow>
              (Inr (Render ''detection.html''
                 \<lparr>ctx_text = Some t, full_image = Some full_img, plate_image = crop_img,
                  status = Some ''GRANTED'', message = Some (''Authorized: '' @ name),
                  css_class = ''status-granted'', gate_triggered = True\<rparr>),
               d\<lparr>access_logs := access_logs d @
                   [\<lparr>log_employee_id = Some eid, log_plate_number = t,
                     log_action = ''ENTRY'', log_details = ''Automated Entry''\<rparr>]\<rparr>,
               activate_gate AUTO_CLOSE_DELAY now g, tr)
          | None \<Rightarrow>
              (Inr (Render ''detection.html''
                 \<lparr>ctx_text = Some t, full_image = Some full_img, plate_image = crop_img,
                  status = Some ''DENIED'', message = Some ''Unregistered Vehicle'',
                  css_class = ''status-denied'', gate_triggered = False\<rparr>),
               d\<lparr>access_logs := access_logs d @
                   [\<lparr>log_employee_id = None, log_plate_number = t,
                     log_action = ''DENIED'', log_details = ''Unknown Vehicle''\<rparr>]\<rparr>,
               g, tr)))"
proof (cases "text")
  case None
  with assms show ?thesis
    by (simp add: detection_def context_init_def)
next
  case (Some t)
  with assms(5) have "fst (process_upload env file) = Inr (Some t, full_img, crop_img)"
    by simp
  from process_upload_candidate [OF this] have "t \<noteq> []"
    by auto
  with Some assms show ?thesis
    by (simp add: detection_def context_init_def split: option.splits)
qed

text \<open>
  C2: for an upload whose pipeline run gives the candidate \<open>text\<close>: when the text is there
  and the registry has it, the status is GRANTED, the log grows by exactly one row, with
  action ENTRY, the employee's id, the plate and the detail, and the gate is triggered
  exactly once (the flag set and one timer started); when the text is there and the
  registry does not have it, the status is DENIED, the log grows by exactly one row with
  action DENIED, and the gate is as before; when there is no text, the status is FAILED
  with the message \<open>No Plate Detected\<close>, and neither the log nor the gate changes.
\<close>

theorem decision_effects:
  assumes "session_user req" and "method_post req" and "upload req = Some file"
    and "filename file \<noteq> []"
    and "process_upload env file = (Inr (text, full_img, crop_img), tr)"
  shows
   "(text = Some t \<and> find_employee d t = Some (name, eid) \<longrightarrow>
       detection env now req d g =
         (Inr (Render ''detection.html''
            \<lparr>ctx_text = Some t, full_image = Some full_img, plate_image = crop_img,
             status = Some ''GRANTED'', message = Some (''Authorized: '' @ name),
             css_class = ''status-granted'', gate_triggered = True\<rparr>),
          d\<lparr>access_logs := access_logs d @
              [\<lparr>log_employee_id = Some eid, log_plate_number = t,
                log_action = ''ENTRY'', log_details = ''Automated Entry''\<rparr>]\<rparr>,
          g\<lparr>is_open := True, sleeping := sleeping g @ [now + AUTO_CLOSE_DELAY]\<rparr>, tr)) \<and>
    (text = Some t \<and> find_employee d t = None \<longrightarrow>
       detection env now req d g =
         (Inr (Render ''detection.html''
            \<lparr>ctx_text = Some t, full_image = Some full_img, plate_image = crop_img,
             status = Some ''DENIED'', message = Some ''Unregistered Vehicle'',
             css_class = ''status-denied'', gate_triggered = False\<rparr>),
          d\<lparr>access_logs := access_logs d @
              [\<lparr>log_employee_id = None, log_plate_number = t,
                log_action = ''DENIED'', log_details = ''Unknown Vehicle''\<rparr>]\<rparr>,
          g, tr)) \<and>
    (text = None \<longrightarrow>
       detection env now req d g =
         (Inr (Render ''detection.html''
            \<lparr>ctx_text = None, full_image = Some full_img, plate_image = crop_img,
             status = Some ''FAILED'', message = Some ''No Plate Detected'',
             css_class = ''status-denied'', gate_triggered = False\<rparr>), d, g, tr))"
  using detection_upload [OF assms, of now d g]
  by (simp add: activate_gate_def)


theorem decision_effects_witness:
  "session_user example_request \<and> method_post example_request \<and>
   upload example_request = Some example_upload \<and> filename example_upload \<noteq> [] \<and>
   fst (process_upload example_detect_env example_upload) =
     Inr (Some ''XYZ123'', ''full_20240101120000.jpg'', Some ''crop_20240101120000.jpg'') \<and>
   find_employee example_db ''XYZ123'' = Some (''Sara'', 1) \<and>
   detection example_detect_env 100 example_request example_db gate_init =
     (Inr (Render ''detection.html''
        \<lparr>ctx_text = Some ''XYZ123'', full_image = Some ''full_20240101120000.jpg'',
         plate_image = Some ''crop_20240101120000.jpg'',
         status = Some ''GRANTED'', message = Some ''Authorized: Sara'',
         css_class = ''status-granted'', gate_triggered = True\<rparr>),
      example_db\<lparr>access_logs :=
          [\<lparr>log_employee_id = Some 1, log_plate_number = ''XYZ123'',
            log_action = ''ENTRY'', log_details = ''Automated Entry''\<rparr>]\<rparr>,
      \<lparr>is_open = True, sleeping = [110]\<rparr>, snd (process_upload example_detect_env example_upload)) \<and>
   find_employee init_db ''XYZ123'' = None \<and>
   detection example_detect_env 100 example_request init_db gate_init =
     (Inr (Render ''detection.html''
        \<lparr>ctx_text = Some ''XYZ123'', full_image = Some ''full_20240101120000.jpg'',
         plate_image = Some ''crop_20240101120000.jpg'',
         status = Some ''DENIED'', message = Some ''Unregistered Vehicle'',
         css_class = ''status-denied'', gate_triggered = False\<rparr>),
      init_db\<lparr>access_logs :=
          [\<lparr>log_employee_id = None, log_plate_number = ''XYZ123'',
            log_action = ''DENIED'', log_details = ''Unknown Vehicle''\<rparr>]\<rparr>,
      gate_init, snd (process_upload example_detect_env example_upload)) \<and>
   fst (process_upload (example_env None []) example_upload) =
     Inr (None, ''full_20240101120000.jpg'', None) \<and>
   detection (example_env None []) 100 example_request example_db gate_init =
     (Inr (Render ''detection.html''
        \<lparr>ctx_text = None, full_image = Some ''full_20240101120000.jpg'', plate_image = None,
         status = Some ''FAILED'', message = Some ''No Plate Detected'',
         css_class = ''status-denied'', gate_triggered = False\<rparr>),
      example_db, gate_init, snd (process_upload (example_env None []) example_upload))"
proof -
  have r: "session_user example_request" "method_post example_request"
    "upload example_request = Some example_upload" "filename example_upload \<noteq> []"
    by (simp_all add: example_request_def example_upload_def)
  have p1: "fst (process_upload example_detect_env example_upload) =
     Inr (Some ''XYZ123'', ''full_20240101120000.jpg'', Some ''crop_20240101120000.jpg'')"
    by code_simp
  then have q1: "process_upload example_detect_env example_upload =
     (Inr (Some ''XYZ123'', ''full_20240101120000.jpg'', Some ''crop_20240101120000.jpg''),
      snd (process_upload example_detect_env example_upload))"
    by (simp add: prod_eq_iff)
  have p2: "fst (process_upload (example_env None []) example_upload) =
     Inr (None, ''full_20240101120000.jpg'', None)"
    by code_simp
  then have q2: "process_upload (example_env None []) example_upload =
     (Inr (None, ''full_20240101120000.jpg'', None),
      snd (process_upload (example_env None []) example_upload))"
    by (simp add: prod_eq_iff)
  have f1: "find_employee example_db ''XYZ123'' = Some (''Sara'', 1)"
    by (simp add: find_employee_def example_db_def)
  have f2: "find_employee init_db ''XYZ123'' = None"
    by (simp add: find_employee_def init_db_def)
  have a: "detection example_detect_env 100 example_request example_db gate_init =
     (Inr (Render ''detection.html''
        \<lparr>ctx_text = Some ''XYZ123'', full_image = Some ''full_20240101120000.jpg'',
         plate_image = Some ''crop_20240101120000.jpg'',
         status = Some ''GRANTED'', message = Some ''Authorized: Sara'',
         css_class = ''status-granted'', gate_triggered = True\<rparr>),
      example_db\<lparr>access_logs :=
          [\<lparr>log_employee_id = Some 1, log_plate_number = ''XYZ123'',
            log_action = ''ENTRY'', log_details = ''Automated Entry''\<rparr>]\<rparr>,
      \<lparr>is_open = True, sleeping = [110]\<rparr>, snd (process_upload example_detect_env example_upload))"
    using decision_effects [OF r q1, of "''XYZ123''" example_db "''Sara''" 1 100 gate_init] f1
    by (simp add: example_db_def gate_init_def AUTO_CLOSE_DELAY_def)
  have b: "detection example_detect_env 100 example_request init_db gate_init =
     (Inr (Render ''detection.html''
        \<lparr>ctx_text = Some ''XYZ123'', full_image = Some ''full_20240101120000.jpg'',
         plate_image = Some ''crop_20240101120000.jpg'',
         status = Some ''DENIED'', message = Some ''Unregistered Vehicle'',
         css_class = ''status-denied'', gate_triggered = False\<rparr>),
      init_db\<lparr>access_logs :=
          [\<lparr>log_employee_id = None, log_plate_number = ''XYZ123'',
            log_action = ''DENIED'', log_details = ''Unknown Vehicle''\<rparr>]\<rparr>,
      gate_init, snd (process_upload example_detect_env example_upload))"
    using decision_effects [OF r q1, of "''XYZ123''" init_db _ _ 100 gate_init] f2
    by (simp add: init_db_def)
  have c: "detection (example_env None []) 100 example_request example_db gate_init =
     (Inr (Render ''detection.html''
        \<lparr>ctx_text = None, full_image = Some ''full_20240101120000.jpg'', plate_image = None,
         status = Some ''FAILED'', message = Some ''No Plate Detected'',
         css_class = ''status-denied'', gate_triggered = False\<rparr>),
      example_db, gate_init, snd (process_upload (example_env None []) example_upload))"
    using decision_effects [OF r q2, of _ example_db _ _ 100 gate_init]
    by simp
  from r p1 f1 a f2 b p2 c show ?thesis
    by blast
qed

text \<open>
  C8, as the code has it: for a request of a logged-in user that posts a file with a
  name, whenever the pipeline returns, the page shows one of the statuses GRANTED,
  DENIED and FAILED; and an upload that cannot be read (as one that meets no detector)
  gives FAILED at once: no crop, no log row, no trigger, and nothing written but the
  saved upload.
\<close>

theorem upload_outcome:
  assumes "session_user req" and "method_post req" and "upload req = Some file"
    and "filename file \<noteq> []"
  shows
   "(get_yolo_model env = None \<or> decoded file = None \<longrightarrow>
       detection env now req d g =
         (Inr (Render ''detection.html''
            \<lparr>ctx_text = None, full_image = Some (''full_'' @ clock env @ ''.jpg''),
             plate_image = None, status = Some ''FAILED'', message = Some ''No Plate Detected'',
             css_class = ''status-denied'', gate_triggered = False\<rparr>),
          d, g, [SaveUpload (upload_path (''full_'' @ clock env @ ''.jpg''))])) \<and>
    (\<forall>res tr. process_upload env file = (Inr res, tr) \<longrightarrow>
       (\<exists>ctx d' g'. detection env now req d g = (Inr (Render ''detection.html'' ctx), d', g', tr) \<and>
          (status ctx = Some ''GRANTED'' \<or> status ctx = Some ''DENIED'' \<or>
           status ctx = Some ''FAILED'')))"
proof -
  have "detection env now req d g =
         (Inr (Render ''detection.html''
            \<lparr>ctx_text = None, full_image = Some (''full_'' @ clock env @ ''.jpg''),
             plate_image = None, status = Some ''FAILED'', message = Some ''No Plate Detected'',
             css_class = ''status-denied'', gate_triggered = False\<rparr>),
          d, g, [SaveUpload (upload_path (''full_'' @ clock env @ ''.jpg''))])"
    if "get_yolo_model env = None \<or> decoded file = None"
    using detection_upload [OF assms process_upload_unavailable [OF that], of now d g]
    by simp
  moreover have "\<exists>ctx d' g'. detection env now req d g = (Inr (Render ''detection.html'' ctx), d', g', tr) \<and>
          (status ctx = Some ''GRANTED'' \<or> status ctx = Some ''DENIED'' \<or>
           status ctx = Some ''FAILED'')"
    if "process_upload env file = (Inr res, tr)" for res tr
  proof -
    obtain cand full_img crop_img where "res = (cand, full_img, crop_img)"
      by (cases res) auto
    with that have "process_upload env file = (Inr (cand, full_img, crop_img), tr)"
      by simp
    from detection_upload [OF assms this, of now d g] show ?thesis
      by (auto split: option.splits)
  qed
  ultimately show ?thesis
    by blast
qed

theorem upload_outcome_witness:
  "session_user (example_request\<lparr>upload := Some unreadable_upload\<rparr>) \<and>
   method_post (example_request\<lparr>upload := Some unreadable_upload\<rparr>) \<and>
   upload (example_request\<lparr>upload := Some unreadable_upload\<rparr>) = Some unreadable_upload \<and>
   filename unreadable_upload \<noteq> [] \<and> decoded unreadable_upload = None \<and>
   detection example_detect_env 100 (example_request\<lparr>upload := Some unreadable_upload\<rparr>)
       example_db gate_init =
     (Inr (Render ''detection.html''
        \<lparr>ctx_text = None, full_image = Some ''full_20240101120000.jpg'',
         plate_image = None, status = Some ''FAILED'', message = Some ''No Plate Detected'',
         css_class = ''status-denied'', gate_triggered = False\<rparr>),
      example_db, gate_init, [SaveUpload ''static/uploads/full_20240101120000.jpg'']) \<and>
   (\<exists>res. fst (process_upload example_detect_env example_upload) = Inr res) \<and>
   (\<exists>ctx d' g' tr. detection example_detect_env 100 example_request example_db gate_init =
        (Inr (Render ''detection.html'' ctx), d', g', tr) \<and>
      (status ctx = Some ''GRANTED'' \<or> status ctx = Some ''DENIED'' \<or> status ctx = Some ''FAILED''))"
proof -
  let ?req = "example_request\<lparr>upload := Some unreadable_upload\<rparr>"
  have r: "session_user ?req" "method_post ?req" "upload ?req = Some unreadable_upload"
    "filename unreadable_upload \<noteq> []"
    by (simp_all add: example_request_def unreadable_upload_def)
  have u: "decoded unreadable_upload = None"
    by (simp add: unreadable_upload_def)
  have ck: "clock example_detect_env = ''20240101120000''"
    by (simp add: example_detect_env_def example_env_def)
  from upload_outcome [OF r, of example_detect_env 100 example_db gate_init] u
  have "detection example_detect_env 100 ?req example_db gate_init =
         (Inr (Render ''detection.html''
            \<lparr>ctx_text = None, full_image = Some (''full_'' @ clock example_detect_env @ ''.jpg''),
             plate_image = None, status = Some ''FAILED'', message = Some ''No Plate Detected'',
             css_class = ''status-denied'', gate_triggered = False\<rparr>),
          example_db, gate_init,
          [SaveUpload (upload_path (''full_'' @ clock example_detect_env @ ''.jpg''))])"
    by blast
  then have a: "detection example_detect_env 100 ?req example_db gate_init =
     (Inr (Render ''detection.html''
        \<lparr>ctx_text = None, full_image = Some ''full_20240101120000.jpg'',
         plate_image = None, status = Some ''FAILED'', message = Some ''No Plate Detected'',
         css_class = ''status-denied'', gate_triggered = False\<rparr>),
      example_db, gate_init, [SaveUpload ''static/uploads/full_20240101120000.jpg''])"
    by (simp add: ck upload_path_def)
  have r2: "session_user example_request" "method_post example_request"
    "upload example_request = Some example_upload" "filename example_upload \<noteq> []"
    by (simp_all add: example_request_def example_upload_def)
  have "fst (process_upload example_detect_env example_upload) =
     Inr (Some ''XYZ123'', ''full_20240101120000.jpg'', Some ''crop_20240101120000.jpg'')"
    by code_simp
  then have p: "process_upload example_detect_env example_upload =
     (Inr (Some ''XYZ123'', ''full_20240101120000.jpg'', Some ''crop_20240101120000.jpg''),
      snd (process_upload example_detect_env example_upload))"
    by (simp add: prod_eq_iff)
  then have e: "\<exists>res. fst (process_upload example_detect_env example_upload) = Inr res"
    by (metis fst_conv)
  from upload_outcome [OF r2, of example_detect_env 100 example_db gate_init] p
  have b: "\<exists>ctx d' g' tr. detection example_detect_env 100 example_request example_db gate_init =
        (Inr (Render ''detection.html'' ctx), d', g', tr) \<and>
      (status ctx = Some ''GRANTED'' \<or> status ctx = Some ''DENIED'' \<or> status ctx = Some ''FAILED'')"
    by blast
  from r u a e b show ?thesis
    by blast
qed

text \<open>The claim as stated fails for two uploads: when the detection call raises, the
  route raises and shows no status; and for a file part without a name the page is
  rendered with no status at all.\<close>

theorem upload_without_status:
  "session_user example_request \<and> method_post example_request \<and>
   upload example_request = Some example_upload \<and> filename example_upload \<noteq> [] \<and>
   detection (example_env (Some detector_raising) ''XYZ123'') 100 example_request example_db gate_init =
     (Inl YoloError, example_db, gate_init, [SaveUpload ''static/uploads/full_20240101120000.jpg'']) \<and>
   detection example_detect_env 100 (example_request\<lparr>upload := Some (example_upload\<lparr>filename := []\<rparr>)\<rparr>)
       example_db gate_init =
     (Inr (Render ''detection.html'' context_init), example_db, gate_init, []) \<and>
   status context_init = None"
proof -
  have "process_upload (example_env (Some detector_raising) ''XYZ123'') example_upload =
     (Inl YoloError, [SaveUpload ''static/uploads/full_20240101120000.jpg''])"
    by (simp add: process_upload_def get_yolo_model_def example_env_def example_upload_def
        detector_raising_def upload_path_def)
  then show ?thesis
    by (simp add: detection_def example_request_def example_upload_def context_init_def)
qed

section \<open>The registry\<close>

lemma registry_ok_init: "registry_ok init_db"
  by (simp add: registry_ok_def init_db_def)

lemma registry_ok_add:
  assumes "registry_ok d" and "add_employee d name pos plate_field = Inr d'"
  shows "registry_ok d'"
proof (cases "normalize_plate plate_field = []")
  case True
  with assms have d': "d' = d\<lparr>employees := employees d @
        [\<lparr>emp_id = last_id d + 1, emp_name = name, emp_position = pos\<rparr>],
      last_id := last_id d + 1\<rparr>"
    by (simp add: add_employee_def Let_def)
  from assms(1) have "emp_id e \<noteq> last_id d + 1" if "e \<in> set (employees d)" for e
    using that by (fastforce simp: registry_ok_def list_all_iff)
  with assms(1) show ?thesis
    unfolding d' by (fastforce simp: registry_ok_def list_all_iff)
next
  case False
  with assms have "\<not> list_ex (\<lambda>p. plate_number p = normalize_plate plate_field) (plates d)"
    by (auto simp: add_employee_def Let_def split: if_splits)
  then have new: "normalize_plate plate_field \<notin> plate_number ` set (plates d)"
    by (auto simp: list_ex_iff)
  have chars: "list_all is_plate_char (normalize_plate plate_field)"
    by (rule normalize_plate_chars)
  from assms False
  have d': "d' = d\<lparr>employees := employees d @
        [\<lparr>emp_id = last_id d + 1, emp_name = name, emp_position = pos\<rparr>],
      last_id := last_id d + 1,
      plates := plates d @
        [\<lparr>plate_number = normalize_plate plate_field, plate_employee_id = last_id d + 1\<rparr>]\<rparr>"
    by (simp add: add_employee_def Let_def split: if_splits)
  from assms(1) have "emp_id e \<noteq> last_id d + 1" if "e \<in> set (employees d)" for e
    using that by (fastforce simp: registry_ok_def list_all_iff)
  with assms(1) False new chars show ?thesis
    unfolding d' by (fastforce simp: registry_ok_def list_all_iff)
qed

lemma registry_ok_delete: "registry_ok d \<Longrightarrow> registry_ok (delete_employee d delete_id)"
  by (auto simp: delete_employee_def registry_ok_def list_all_iff distinct_map_filter)

lemma detection_db:
  "fst (snd (detection env now req d g)) = d \<or>
   (\<exists>file t nm c tr l. process_upload env file = (Inr (Some t, nm, c), tr) \<and>
      log_plate_number l = t \<and>
      fst (snd (detection env now req d g)) = d\<lparr>access_logs := access_logs d @ [l]\<rparr>)"
proof (cases "session_user req \<and> method_post req \<and> upload req \<noteq> None")
  case False
  then show ?thesis
    by (auto simp: detection_def)
next
  case True
  then obtain up where f: "upload req = Some up"
    by auto
  show ?thesis
  proof (cases "filename up = []")
    case True
    with f show ?thesis
      by (simp add: detection_def)
  next
    case False
    obtain out tr where p: "process_upload env up = (out, tr)"
      by (cases "process_upload env up") auto
    show ?thesis
    proof (cases out)
      case (Inl e)
      with True f False p show ?thesis
        by (simp add: detection_def)
    next
      case (Inr res)
      obtain cand nm c where res: "res = (cand, nm, c)"
        by (cases res) auto
      from True f False p Inr res
      have q: "process_upload env up = (Inr (cand, nm, c), tr)"
        by simp
      from True f have v: "session_user req" "method_post req" "upload req = Some up"
        by simp_all
      note du = detection_upload [OF v False q, of now d g]
      show ?thesis
      proof (cases cand)
        case None
        with du show ?thesis
          by simp
      next
        case (Some t)
        show ?thesis
        proof (cases "find_employee d t")
          case None
          let ?l = "\<lparr>log_employee_id = None, log_plate_number = t,
                     log_action = ''DENIED'', log_details = ''Unknown Vehicle''\<rparr>"
          from du Some None
          have "fst (snd (detection env now req d g)) = d\<lparr>access_logs := access_logs d @ [?l]\<rparr>"
            by simp
          moreover have "log_plate_number ?l = t"
            by simp
          moreover note q [unfolded Some]
          ultimately show ?thesis
            by blast
        next
          case hit: (Some ne)
          obtain name eid where ne: "ne = (name, eid)"
            by (cases ne) auto
          let ?l = "\<lparr>log_employee_id = Some eid, log_plate_number = t,
                     log_action = ''ENTRY'', log_details = ''Automated Entry''\<rparr>"
          from du Some hit ne
          have "fst (snd (detection env now req d g)) = d\<lparr>access_logs := access_logs d @ [?l]\<rparr>"
            by simp
          moreover have "log_plate_number ?l = t"
            by simp
          moreover note q [unfolded Some]
          ultimately show ?thesis
            by blast
        qed
      qed
    qed
  qed
qed

lemma registry_ok_detection:
  assumes "registry_ok d"
  shows "registry_ok (fst (snd (detection env now req d g)))"
proof -
  from detection_db [of env now req d g]
  consider "fst (snd (detection env now req d g)) = d"
    | up t nm c tr l where "process_upload env up = (Inr (Some t, nm, c), tr)"
      and "log_plate_number l = t"
      and "fst (snd (detection env now req d g)) = d\<lparr>access_logs := access_logs d @ [l]\<rparr>"
    by blast
  then show ?thesis
  proof cases
    case 1
    with assms show ?thesis
      by simp
  next
    case 2
    from 2(1) have "fst (process_upload env up) = Inr (Some t, nm, c)"
      by simp
    from process_upload_candidate [OF this] have "list_all is_plate_char t"
      by simp
    with assms 2 show ?thesis
      by (simp add: registry_ok_def)
  qed
qed

lemma registry_ok_apply: "registry_ok d \<Longrightarrow> registry_ok (apply_operation op d)"
proof (cases op)
  case (AddEmployee name pos plate_field)
  assume "registry_ok d"
  with AddEmployee show ?thesis
    by (cases "add_employee d name pos plate_field") (simp_all add: registry_ok_add)
next
  case (DeleteEmployee delete_id)
  assume "registry_ok d"
  with DeleteEmployee show ?thesis
    by (simp add: registry_ok_delete)
next
  case (Detect env now req)
  assume "registry_ok d"
  with Detect show ?thesis
    by (simp add: registry_ok_detection)
qed

lemma registry_ok_fold: "registry_ok d \<Longrightarrow> registry_ok (fold apply_operation ops d)"
  by (induction ops arbitrary: d) (simp_all add: registry_ok_apply)

lemma registry_ok_run: "registry_ok (run_operations ops)"
  unfolding run_operations_def by (rule registry_ok_fold) (rule registry_ok_init)

text \<open>
  C9: after any sequence of registrations, deletions and detections from the empty
  database, every plate stored in the registry (and every plate text in the log) is made
  of upper-case letters and digits only; a registration stores the normalised form of
  the plate it is given, or no plate; and the candidate that the detection route looks
  up in the registry is made of upper-case letters and digits only.
\<close>

theorem plate_text_normalized:
  "list_all (\<lambda>p. list_all is_plate_char (plate_number p)) (plates (run_operations ops)) \<and>
   list_all (\<lambda>l. list_all is_plate_char (log_plate_number l)) (access_logs (run_operations ops)) \<and>
   (add_employee d name pos plate_field = Inr d' \<longrightarrow>
      plates d' = plates d \<or>
      plates d' = plates d @
        [\<lparr>plate_number = normalize_plate plate_field, plate_employee_id = last_id d + 1\<rparr>]) \<and>
   list_all is_plate_char (normalize_plate plate_field) \<and>
   (process_upload env file = (Inr (Some t, nm, c), tr) \<longrightarrow> list_all is_plate_char t)"
proof -
  from registry_ok_run [of ops]
  have "list_all (\<lambda>p. list_all is_plate_char (plate_number p)) (plates (run_operations ops))"
    and "list_all (\<lambda>l. list_all is_plate_char (log_plate_number l)) (access_logs (run_operations ops))"
    by (simp_all add: registry_ok_def list_all_iff)
  moreover have "add_employee d name pos plate_field = Inr d' \<longrightarrow>
      plates d' = plates d \<or>
      plates d' = plates d @
        [\<lparr>plate_number = normalize_plate plate_field, plate_employee_id = last_id d + 1\<rparr>]"
    by (auto simp: add_employee_def Let_def split: if_splits)
  moreover have "process_upload env file = (Inr (Some t, nm, c), tr) \<longrightarrow> list_all is_plate_char t"
    using process_upload_candidate [of env "file" t nm c] by simp
  ultimately show ?thesis
    by (simp add: normalize_plate_chars)
qed

theorem plate_text_normalized_witness:
  "add_employee init_db ''Sara'' ''Engineer'' ''xyz-123'' = Inr example_db \<and>
   plates example_db =
     plates init_db @ [\<lparr>plate_number = normalize_plate ''xyz-123'', plate_employee_id = last_id init_db + 1\<rparr>] \<and>
   normalize_plate ''xyz-123'' = ''XYZ123'' \<and>
   list_all is_plate_char (normalize_plate ''xyz-123'') \<and>
   plates (run_operations example_operations) = [\<lparr>plate_number = ''XYZ123'', plate_employee_id = 1\<rparr>] \<and>
   list_all (\<lambda>p. list_all is_plate_char (plate_number p)) (plates (run_operations example_operations)) \<and>
   list_all (\<lambda>l. list_all is_plate_char (log_plate_number l))
     (access_logs (run_operations example_operations)) \<and>
   process_upload example_detect_env example_upload =
     (Inr (Some ''XYZ123'', ''full_20240101120000.jpg'', Some ''crop_20240101120000.jpg''),
      snd (process_upload example_detect_env example_upload)) \<and>
   list_all is_plate_char ''XYZ123''"
proof -
  have n: "normalize_plate ''xyz-123'' = ''XYZ123''"
    by code_simp
  have a: "add_employee init_db ''Sara'' ''Engineer'' ''xyz-123'' = Inr example_db"
    by (simp add: add_employee_def init_db_def example_db_def n)
  have "fst (process_upload example_detect_env example_upload) =
     Inr (Some ''XYZ123'', ''full_20240101120000.jpg'', Some ''crop_20240101120000.jpg'')"
    by code_simp
  then have p: "process_upload example_detect_env example_upload =
     (Inr (Some ''XYZ123'', ''full_20240101120000.jpg'', Some ''crop_20240101120000.jpg''),
      snd (process_upload example_detect_env example_upload))"
    by (simp add: prod_eq_iff)
  have r: "plates (run_operations example_operations) =
      [\<lparr>plate_number = ''XYZ123'', plate_employee_id = 1\<rparr>]"
    by code_simp
  note inst = plate_text_normalized [of example_operations init_db "''Sara''" "''Engineer''"
      "''xyz-123''" example_db example_detect_env example_upload "''XYZ123''"
      "''full_20240101120000.jpg''" "Some ''crop_20240101120000.jpg''"
      "snd (process_upload example_detect_env example_upload)"]
  from inst a have "plates example_db = plates init_db \<or> plates example_db = plates init_db @
        [\<lparr>plate_number = normalize_plate ''xyz-123'', plate_employee_id = last_id init_db + 1\<rparr>]"
    by blast
  then have b: "plates example_db = plates init_db @
        [\<lparr>plate_number = normalize_plate ''xyz-123'', plate_employee_id = last_id init_db + 1\<rparr>]"
    by (simp add: example_db_def init_db_def)
  from inst p have c: "list_all is_plate_char ''XYZ123''"
    by blast
  from inst a b n r p c show ?thesis
    by blast
qed

text \<open>
  C10: when the plate of an add-employee request normalises to the empty string, the
  employee row is created with the next id and the given name and position, no plate
  row is inserted, and (in a registry that satisfies \<open>registry_ok\<close>, as every reachable
  one does) no plate belongs to the new employee.
\<close>

theorem add_employee_without_plate:
  assumes "normalize_plate plate_field = []"
  shows "add_employee d name pos plate_field =
      Inr (d\<lparr>employees := employees d @
               [\<lparr>emp_id = last_id d + 1, emp_name = name, emp_position = pos\<rparr>],
             last_id := last_id d + 1\<rparr>) \<and>
    (\<forall>d'. add_employee d name pos plate_field = Inr d' \<longrightarrow>
       plates d' = plates d \<and>
       (registry_ok d \<longrightarrow> \<not> list_ex (\<lambda>p. plate_employee_id p = last_id d + 1) (plates d')))"
  using assms
  by (auto simp: add_employee_def Let_def registry_ok_def list_all_iff list_ex_iff)


theorem add_employee_without_plate_witness:
  "normalize_plate ''-- !'' = [] \<and> registry_ok example_db \<and>
   add_employee example_db ''Omar'' ''Guard'' ''-- !'' =
     Inr (example_db\<lparr>employees := employees example_db @
               [\<lparr>emp_id = 2, emp_name = ''Omar'', emp_position = ''Guard''\<rparr>],
             last_id := 2\<rparr>) \<and>
   plates (example_db\<lparr>employees := employees example_db @
               [\<lparr>emp_id = 2, emp_name = ''Omar'', emp_position = ''Guard''\<rparr>],
             last_id := 2\<rparr>) = plates example_db \<and>
   \<not> list_ex (\<lambda>p. plate_employee_id p = 2) (plates example_db)"
proof -
  have n: "normalize_plate ''-- !'' = []"
    by code_simp
  have ok: "registry_ok example_db"
    by code_simp
  have l: "last_id example_db + 1 = 2"
    by (simp add: example_db_def)
  note inst = add_employee_without_plate [OF n, of example_db "''Omar''" "''Guard''", unfolded l]
  from inst have a: "add_employee example_db ''Omar'' ''Guard'' ''-- !'' =
     Inr (example_db\<lparr>employees := employees example_db @
               [\<lparr>emp_id = 2, emp_name = ''Omar'', emp_position = ''Guard''\<rparr>],
             last_id := 2\<rparr>)"
    by blast
  with inst ok have "\<not> list_ex (\<lambda>p. plate_employee_id p = 2)
      (plates (example_db\<lparr>employees := employees example_db @
               [\<lparr>emp_id = 2, emp_name = ''Omar'', emp_position = ''Guard''\<rparr>],
             last_id := 2\<rparr>))"
    by blast
  with n ok a show ?thesis
    by simp
qed

end
